theory Spec2Isabelle
  imports Complex_Main
begin

section \<open>Python strings\<close>

text \<open>
  A Python \<open>str\<close> is a sequence of Unicode code points, so a string is modelled
  as a list of code points (natural numbers); \<open>len\<close> is \<open>length\<close>. ASCII
  literals of the source are written \<open>asc ''...''\<close>.
\<close>

type_synonym ustr = "nat list"

definition asc :: "string \<Rightarrow> ustr" where
  "asc s = map of_char s"

text \<open>
  \<open>str.isspace\<close> for one code point, which is also what \<open>str.strip()\<close> removes
  and what \<open>\s\<close> matches in a \<open>str\<close> pattern (Unicode 14 tables of CPython 3.11).
\<close>

definition py_isspace :: "nat \<Rightarrow> bool" where
  "py_isspace c =
     (c \<in> set [9, 10, 11, 12, 13, 28, 29, 30, 31, 32, 133, 160, 5760,
                8232, 8233, 8239, 8287, 12288]
      \<or> (8192 \<le> c \<and> c \<le> 8202))"

text \<open>\<open>s.strip()\<close>\<close>

definition strip :: "ustr \<Rightarrow> ustr" where
  "strip s = rev (dropWhile py_isspace (rev (dropWhile py_isspace s)))"

text \<open>\<open>s.startswith(p)\<close> and \<open>s.endswith(p)\<close>\<close>

definition startswith :: "ustr \<Rightarrow> ustr \<Rightarrow> bool" where
  "startswith p s = (take (length p) s = p)"

definition endswith :: "ustr \<Rightarrow> ustr \<Rightarrow> bool" where
  "endswith p s = (length p \<le> length s \<and> drop (length s - length p) s = p)"

text \<open>\<open>sub in s\<close> for strings\<close>

fun contains :: "ustr \<Rightarrow> ustr \<Rightarrow> bool" where
  "contains sub [] = (sub = [])"
| "contains sub (c # cs) = (if startswith sub (c # cs) then True else contains sub cs)"

text \<open>
  \<open>s.split(sep)\<close> for a non-empty separator: the pieces between the non-overlapping
  occurrences of \<open>sep\<close>, found from the left. (With an empty separator Python raises
  ValueError; the source only splits on literals.) \<open>cur\<close> holds the current piece,
  reversed.
\<close>

function split_from :: "ustr \<Rightarrow> ustr \<Rightarrow> ustr \<Rightarrow> ustr list" where
  "split_from sep cur [] = [rev cur]"
| "split_from sep cur (c # cs) =
     (if sep \<noteq> [] \<and> startswith sep (c # cs)
      then rev cur # split_from sep [] (drop (length sep) (c # cs))
      else split_from sep (c # cur) cs)"
  by pat_completeness auto
termination
  by (relation "measure (\<lambda>(sep, cur, s). length s)") (auto simp: neq_Nil_conv)

definition py_split :: "ustr \<Rightarrow> ustr \<Rightarrow> ustr list" where
  "py_split sep s = split_from sep [] s"

section \<open>Python values\<close>

text \<open>
  The values \<open>json.loads\<close> produces and the dictionaries the source builds. A
  \<open>float\<close> is modelled by its exact rational value (no rounding), with the two
  non-finite kinds \<open>json.loads\<close> accepts kept apart; a \<open>dict\<close> is an association
  list in insertion order, its keys strings as in JSON.
\<close>

datatype pyval =
    PNone
  | PBool bool
  | PInt int
  | PFloat rat
  | PNaN
  | PInf bool
  | PStr ustr
  | PList "pyval list"
  | PDict "(ustr \<times> pyval) list"

text \<open>The exception classes the source distinguishes. \<open>Timeout\<close> is
  \<open>requests.exceptions.Timeout\<close>, a subclass of \<open>RequestException\<close>;
  \<open>JSONDecodeError\<close> is a subclass of \<open>ValueError\<close>; \<open>OtherError\<close> stands for any
  other subclass of \<open>Exception\<close> (the errors of the OpenAI client among them).\<close>

datatype exn =
    Timeout
  | RequestException
  | JSONDecodeError
  | ValueError
  | KeyError
  | TypeError
  | IndexError
  | AttributeError
  | OSError
  | OtherError

text \<open>Truthiness, as \<open>if x:\<close> tests it.\<close>

fun py_truthy :: "pyval \<Rightarrow> bool" where
  "py_truthy PNone = False"
| "py_truthy (PBool b) = b"
| "py_truthy (PInt i) = (i \<noteq> 0)"
| "py_truthy (PFloat r) = (r \<noteq> 0)"
| "py_truthy PNaN = True"
| "py_truthy (PInf s) = True"
| "py_truthy (PStr s) = (s \<noteq> [])"
| "py_truthy (PList xs) = (xs \<noteq> [])"
| "py_truthy (PDict kvs) = (kvs \<noteq> [])"

text \<open>\<open>key in data\<close> for a string key: membership in a dict's keys, in a list's
  elements, substring of a string; a \<open>TypeError\<close> for a value that is not a container.\<close>

fun str_in :: "ustr \<Rightarrow> pyval \<Rightarrow> exn + bool" where
  "str_in k (PDict kvs) = Inr (k \<in> set (map fst kvs))"
| "str_in k (PList xs) = Inr (PStr k \<in> set xs)"
| "str_in k (PStr s) = Inr (contains k s)"
| "str_in k v = Inl TypeError"

text \<open>Python's list index: a negative index counts from the end.\<close>

definition list_index :: "'a list \<Rightarrow> int \<Rightarrow> exn + 'a" where
  "list_index xs i =
     (if 0 \<le> i \<and> i < int (length xs) then Inr (xs ! nat i)
      else if i < 0 \<and> - int (length xs) \<le> i then Inr (xs ! nat (int (length xs) + i))
      else Inl IndexError)"

text \<open>\<open>data[key]\<close>: a dict is looked up by key (\<open>KeyError\<close> when absent; a key that
  is a list or a dict is unhashable), a list and a string are indexed by an \<open>int\<close>
  (a \<open>bool\<close> is one), anything else is not subscriptable.\<close>

fun py_getitem :: "pyval \<Rightarrow> pyval \<Rightarrow> exn + pyval" where
  "py_getitem (PDict kvs) (PStr k) =
     (case map_of kvs k of None \<Rightarrow> Inl KeyError | Some v \<Rightarrow> Inr v)"
| "py_getitem (PDict kvs) (PList xs) = Inl TypeError"
| "py_getitem (PDict kvs) (PDict ys) = Inl TypeError"
| "py_getitem (PDict kvs) k = Inl KeyError"
| "py_getitem (PList xs) (PInt i) = list_index xs i"
| "py_getitem (PList xs) (PBool b) = list_index xs (if b then 1 else 0)"
| "py_getitem (PList xs) k = Inl TypeError"
| "py_getitem (PStr s) (PInt i) = map_sum id (\<lambda>c. PStr [c]) (list_index s i)"
| "py_getitem (PStr s) (PBool b) =
     map_sum id (\<lambda>c. PStr [c]) (list_index s (if b then 1 else 0))"
| "py_getitem (PStr s) k = Inl TypeError"
| "py_getitem v k = Inl TypeError"

text \<open>\<open>for key in scores\<close>: the keys of a dict, the elements of a list, the characters
  of a string.\<close>

fun py_iter :: "pyval \<Rightarrow> exn + pyval list" where
  "py_iter (PDict kvs) = Inr (map (\<lambda>kv. PStr (fst kv)) kvs)"
| "py_iter (PList xs) = Inr xs"
| "py_iter (PStr s) = Inr (map (\<lambda>c. PStr [c]) s)"
| "py_iter v = Inl TypeError"

text \<open>\<open>0 <= v <= 1\<close>: numbers are compared (a \<open>bool\<close> is 0 or 1, a NaN compares
  false), anything else raises \<open>TypeError\<close>.\<close>

fun in_unit :: "pyval \<Rightarrow> exn + bool" where
  "in_unit (PInt i) = Inr (0 \<le> i \<and> i \<le> 1)"
| "in_unit (PBool b) = Inr True"
| "in_unit (PFloat r) = Inr (0 \<le> r \<and> r \<le> 1)"
| "in_unit PNaN = Inr False"
| "in_unit (PInf s) = Inr False"
| "in_unit v = Inl TypeError"

text \<open>Sequencing of a computation that may raise.\<close>

definition and_then :: "exn + 'a \<Rightarrow> ('a \<Rightarrow> exn + 'b) \<Rightarrow> exn + 'b" where
  "and_then m f = (case m of Inl e \<Rightarrow> Inl e | Inr x \<Rightarrow> f x)"

text \<open>\<open>all(f(x) for x in xs)\<close>: stops at the first false test, raises what a test raises.\<close>

fun all_of :: "('a \<Rightarrow> exn + bool) \<Rightarrow> 'a list \<Rightarrow> exn + bool" where
  "all_of f [] = Inr True"
| "all_of f (x # xs) =
     (case f x of Inl e \<Rightarrow> Inl e | Inr b \<Rightarrow> if b then all_of f xs else Inr False)"

text \<open>Updating a dict: \<open>d[k] = v\<close> keeps the position of a key already present.\<close>

fun dict_set :: "('k \<times> 'v) list \<Rightarrow> 'k \<Rightarrow> 'v \<Rightarrow> ('k \<times> 'v) list" where
  "dict_set [] k v = [(k, v)]"
| "dict_set (p # ps) k v = (if fst p = k then (k, v) # ps else p # dict_set ps k v)"

section \<open>validate\_code\<close>

definition fence_open :: ustr where
  "fence_open = [96, 96, 96] @ asc ''python''"

definition fence_close :: ustr where
  "fence_close = [96, 96, 96]"

text \<open>
  Lines 718--723: \<open>code.strip()\<close>, then \<open>code[8:]\<close> if it starts with the opening
  marker, then \<open>code[:-3]\<close> if it ends with the closing marker, then \<open>strip()\<close> again.
\<close>

definition strip_fences :: "ustr \<Rightarrow> ustr" where
  "strip_fences code0 =
     (let code1 = strip code0;
          code2 = (if startswith fence_open code1 then drop 8 code1 else code1);
          code3 = (if endswith fence_close code2 then take (length code2 - 3) code2 else code2)
      in strip code3)"

definition required_components :: "ustr list" where
  "required_components =
     [asc ''import'', asc ''class'', asc ''def'', [34, 34, 34], asc ''try:'', asc ''except'']"

definition dangerous_imports :: "ustr list" where
  "dangerous_imports = [asc ''subprocess'', asc ''os.system'', asc ''eval'', asc ''exec'']"

text \<open>\<open>missing = [comp for comp in required_components if comp not in code]\<close>\<close>

definition missing_components :: "ustr \<Rightarrow> ustr list" where
  "missing_components code = filter (\<lambda>comp. \<not> contains comp code) required_components"

text \<open>
  The loop of lines 744--747 returns \<open>False\<close> at the first deny-listed word found in
  the code; \<open>no_dangerous\<close> is \<open>True\<close> when the loop falls through.
\<close>

fun no_dangerous :: "ustr list \<Rightarrow> ustr \<Rightarrow> bool" where
  "no_dangerous [] code = True"
| "no_dangerous (imp # imps) code =
     (if contains imp code then False else no_dangerous imps code)"

text \<open>
  \<open>validate_code\<close>. The built-in \<open>compile\<close> is a parameter: \<open>compiles code\<close> says that
  \<open>compile(code, '<string>', 'exec')\<close> returns; when it raises, the handler of line 751
  returns \<open>False\<close>. The argument is any Python value: line 712 rejects what is falsy or
  not a \<open>str\<close>.
\<close>

definition validate_code :: "(ustr \<Rightarrow> bool) \<Rightarrow> pyval \<Rightarrow> bool" where
  "validate_code compiles v =
     (case v of
        PStr code0 \<Rightarrow>
          if code0 = [] then False
          else
            let code = strip_fences code0 in
            if length (py_split [10] (strip code)) < 10 then False
            else if missing_components code \<noteq> [] then False
            else if compiles code then no_dangerous dangerous_imports code
            else False
      | _ \<Rightarrow> False)"

section \<open>Evaluation reports\<close>

definition k_scores :: ustr where "k_scores = asc ''scores''"
definition k_total_score :: ustr where "k_total_score = asc ''total_score''"
definition k_analysis :: ustr where "k_analysis = asc ''analysis''"
definition k_score :: ustr where "k_score = asc ''score''"
definition k_structure :: ustr where "k_structure = asc ''structure''"
definition k_style :: ustr where "k_style = asc ''style''"
definition k_error_handling :: ustr where "k_error_handling = asc ''error_handling''"
definition k_readability :: ustr where "k_readability = asc ''readability''"
definition k_performance :: ustr where "k_performance = asc ''performance''"

definition required_keys :: "ustr list" where
  "required_keys = [k_scores, k_total_score, k_analysis]"

definition required_scores :: "ustr list" where
  "required_scores = [k_structure, k_style, k_error_handling, k_readability, k_performance]"

text \<open>
  The body of the \<open>try\<close> of \<open>_validate_evaluation_format\<close> (lines 411--433), as a
  computation that may raise; \<open>data\<close> is whatever \<open>json.loads\<close> returned.
\<close>

definition validate_body :: "pyval \<Rightarrow> exn + bool" where
  "validate_body data =
     and_then (all_of (\<lambda>key. str_in key data) required_keys) (\<lambda>has_keys.
       if has_keys then
         and_then (py_getitem data (PStr k_scores)) (\<lambda>scores.
         and_then (all_of (\<lambda>key. str_in key scores) required_scores) (\<lambda>has_scores.
           if has_scores then
             and_then (py_iter scores) (\<lambda>keys.
             and_then (all_of (\<lambda>key. and_then (py_getitem scores key) in_unit) keys) (\<lambda>in_range.
               if in_range then
                 and_then (py_getitem data (PStr k_total_score)) (\<lambda>total_score.
                 and_then (in_unit total_score) (\<lambda>total_ok.
                   if total_ok then
                     and_then (py_getitem data (PStr k_analysis)) (\<lambda>analysis.
                       case analysis of
                         PStr a \<Rightarrow> if length a < 10 then Inr False else Inr True
                       | _ \<Rightarrow> Inr False)
                   else Inr False))
               else Inr False))
           else Inr False))
       else Inr False)"

text \<open>\<open>_validate_evaluation_format\<close>: any exception of the body gives \<open>False\<close>.\<close>

definition validate_evaluation_format :: "pyval \<Rightarrow> bool" where
  "validate_evaluation_format data =
     (case validate_body data of Inl e \<Rightarrow> False | Inr b \<Rightarrow> b)"

definition default_analysis :: ustr where
  "default_analysis =
     [26080, 27861, 35299, 26512, 35780, 20272, 32467, 26524, 65292, 20351, 29992,
      40664, 35748, 35780, 20998, 12290]"

text \<open>\<open>_get_default_evaluation\<close>\<close>

definition get_default_evaluation :: pyval where
  "get_default_evaluation =
     PDict [(k_scores, PDict [(k_structure, PFloat (1/2)), (k_style, PFloat (1/2)),
                              (k_error_handling, PFloat (1/2)), (k_readability, PFloat (1/2)),
                              (k_performance, PFloat (1/2))]),
            (k_total_score, PFloat (1/2)),
            (k_analysis, PStr default_analysis)]"

subsection \<open>The regular expressions of the fallback path\<close>

text \<open>
  The patterns of \<open>_extract_scores_from_text\<close> are sequences of character classes,
  each taken once or repeated greedily. \<open>match_items\<close> matches such a sequence at the
  start of a string the way Python's backtracking matcher does: a repetition first
  takes the longest run, then gives characters back one at a time until the rest of the
  pattern matches. The result lists the piece each item matched.
\<close>

datatype item = One "nat \<Rightarrow> bool" | Many nat "nat \<Rightarrow> bool"

fun try_down :: "(nat \<Rightarrow> 'a option) \<Rightarrow> nat \<Rightarrow> nat \<Rightarrow> 'a option" where
  "try_down f lo 0 = (if lo = 0 then f 0 else None)"
| "try_down f lo (Suc n) =
     (if Suc n < lo then None
      else (case f (Suc n) of Some r \<Rightarrow> Some r | None \<Rightarrow> try_down f lo n))"

primrec match_items :: "item list \<Rightarrow> ustr \<Rightarrow> ustr list option" where
  "match_items [] s = Some []"
| "match_items (it # its) s =
     (case it of
        One cls \<Rightarrow>
          (case s of
             [] \<Rightarrow> None
           | c # cs \<Rightarrow> if cls c then map_option ((#) [c]) (match_items its cs) else None)
      | Many lo cls \<Rightarrow>
          try_down (\<lambda>n. map_option ((#) (take n s)) (match_items its (drop n s)))
            lo (length (takeWhile cls s)))"

text \<open>\<open>re.search\<close>: the leftmost position where the pattern matches, with the pieces.\<close>

fun search :: "item list \<Rightarrow> ustr \<Rightarrow> (nat \<times> ustr list) option" where
  "search its [] = map_option (Pair 0) (match_items its [])"
| "search its (c # cs) =
     (case match_items its (c # cs) of
        Some ps \<Rightarrow> Some (0, ps)
      | None \<Rightarrow> map_option (\<lambda>(i, ps). (Suc i, ps)) (search its cs))"

text \<open>
  \<open>re.finditer\<close>: the matches from left to right, each search starting where the
  previous match ended. Every pattern of the source matches at least four characters;
  an empty match would end the scan here.
\<close>

function finditer :: "item list \<Rightarrow> ustr \<Rightarrow> ustr list list" where
  "finditer its s =
     (case search its s of
        None \<Rightarrow> []
      | Some (i, ps) \<Rightarrow>
          if i + length (concat ps) = 0 \<or> s = [] then [ps]
          else ps # finditer its (drop (i + length (concat ps)) s))"
  by pat_completeness auto
termination
  by (relation "measure (\<lambda>(its, s). length s)") auto

declare finditer.simps [simp del]

text \<open>
  \<open>\d\<close> in a \<open>str\<close> pattern matches the Unicode decimal digits (category Nd), which come
  in runs of ten (Unicode 14: each entry is the first code point of a run and its
  length); \<open>float\<close> and \<open>int\<close> read each of them as its digit value.
\<close>

definition digit_blocks :: "(nat \<times> nat) list" where
  "digit_blocks =
     [(48, 10), (1632, 10), (1776, 10), (1984, 10), (2406, 10), (2534, 10), (2662, 10),
     (2790, 10), (2918, 10), (3046, 10), (3174, 10), (3302, 10), (3430, 10),
     (3558, 10), (3664, 10), (3792, 10), (3872, 10), (4160, 10), (4240, 10),
     (6112, 10), (6160, 10), (6470, 10), (6608, 10), (6784, 10), (6800, 10),
     (6992, 10), (7088, 10), (7232, 10), (7248, 10), (42528, 10), (43216, 10),
     (43264, 10), (43472, 10), (43504, 10), (43600, 10), (44016, 10), (65296, 10),
     (66720, 10), (68912, 10), (69734, 10), (69872, 10), (69942, 10), (70096, 10),
     (70384, 10), (70736, 10), (70864, 10), (71248, 10), (71360, 10), (71472, 10),
     (71904, 10), (72016, 10), (72784, 10), (73040, 10), (73120, 10), (92768, 10),
     (92864, 10), (93008, 10), (120782, 50), (123200, 10), (123632, 10), (125264, 10),
     (130032, 10)]"

definition digit_value :: "nat \<Rightarrow> nat option" where
  "digit_value c =
     (case find (\<lambda>(a, n). a \<le> c \<and> c < a + n) digit_blocks of
        None \<Rightarrow> None
      | Some (a, n) \<Rightarrow> Some ((c - a) mod 10))"

definition py_isdigit :: "nat \<Rightarrow> bool" where
  "py_isdigit c = (digit_value c \<noteq> None)"

definition colon :: nat where "colon = 58"
definition wide_colon :: nat where "wide_colon = 65306"
definition newline :: nat where "newline = 10"

text \<open>The tail \<open>\s*(0\.\d+)\<close> the three score patterns share.\<close>

definition score_tail :: "item list" where
  "score_tail = [Many 0 py_isspace, One (\<lambda>c. c = 48), One (\<lambda>c. c = 46), Many 1 py_isdigit]"

text \<open>
  \<open>score_patterns\<close> (lines 443--447), each with the number of items before the tail.
  The first takes a label without the full-width colon U+FF1A and without a line break,
  then a colon of either width; the second is \<open>([^:\n]+):\<close>; the third is
  \<open>([^=\n]+)\s*=\<close>.
\<close>

definition score_patterns :: "(item list \<times> nat) list" where
  "score_patterns =
     [([Many 1 (\<lambda>c. c \<noteq> wide_colon \<and> c \<noteq> newline),
        One (\<lambda>c. c = colon \<or> c = wide_colon)] @ score_tail, 2),
      ([Many 1 (\<lambda>c. c \<noteq> colon \<and> c \<noteq> newline),
        One (\<lambda>c. c = colon)] @ score_tail, 2),
      ([Many 1 (\<lambda>c. c \<noteq> 61 \<and> c \<noteq> newline), Many 0 py_isspace,
        One (\<lambda>c. c = 61)] @ score_tail, 3)]"

text \<open>\<open>match.group(1)\<close> is the first piece; \<open>match.group(2)\<close> is the zero, the point
  and the digits, the last three pieces.\<close>

definition group1 :: "ustr list \<Rightarrow> ustr" where
  "group1 ps = (case ps of [] \<Rightarrow> [] | g # rest \<Rightarrow> g)"

definition group2 :: "nat \<Rightarrow> ustr list \<Rightarrow> ustr" where
  "group2 k ps = concat (drop (Suc k) ps)"

text \<open>
  \<open>float\<close> on a string \<open>0.d\<^sub>1\<dots>d\<^sub>n\<close>, the only strings the second group matches: the
  exact value of the decimal fraction. Any other string is reported as \<open>ValueError\<close>
  (Python's \<open>float\<close> accepts more, which the source never passes).
\<close>

fun frac_value :: "nat list \<Rightarrow> rat" where
  "frac_value [] = 0"
| "frac_value (d # ds) = (of_nat d + frac_value ds) / 10"

definition py_float :: "ustr \<Rightarrow> exn + rat" where
  "py_float s =
     (case s of
        z # p # ds \<Rightarrow>
          if z = 48 \<and> p = 46 \<and> ds \<noteq> [] \<and> list_all py_isdigit ds
          then Inr (frac_value (map (\<lambda>c. the (digit_value c)) ds))
          else Inl ValueError
      | _ \<Rightarrow> Inl ValueError)"

text \<open>
  \<open>str.lower\<close>. ASCII capitals are lowered; of the other code points, the two whose
  lower case holds an ASCII letter are lowered as Python does (U+0130 and the Kelvin
  sign); the remaining cased letters outside ASCII are left as they are, which no
  substring test of the source can observe (its keywords are lower-case ASCII without
  \<open>i\<close> and \<open>k\<close>, or Chinese).
\<close>

definition lower_char :: "nat \<Rightarrow> ustr" where
  "lower_char c =
     (if 65 \<le> c \<and> c \<le> 90 then [c + 32]
      else if c = 304 then [105, 775]
      else if c = 8490 then [107]
      else [c])"

definition py_lower :: "ustr \<Rightarrow> ustr" where
  "py_lower s = concat (map lower_char s)"

definition zh_structure :: ustr where "zh_structure = [32467, 26500]"
definition zh_style :: ustr where "zh_style = [39118, 26684]"
definition zh_error :: ustr where "zh_error = [38169, 35823]"
definition zh_readable :: ustr where "zh_readable = [21487, 35835]"
definition zh_performance :: ustr where "zh_performance = [24615, 33021]"
definition zh_analysis :: ustr where "zh_analysis = [20998, 26512]"
definition zh_evaluation_result :: ustr where "zh_evaluation_result = [35780, 20272, 32467, 26524]"
definition no_analysis :: ustr where "no_analysis = [26080, 35814, 32454, 20998, 26512]"

text \<open>The \<open>if\<close>/\<open>elif\<close> chain of lines 456--465 that files a score under its dimension.\<close>

definition record_score :: "(ustr \<times> pyval) list \<Rightarrow> ustr \<Rightarrow> rat \<Rightarrow> (ustr \<times> pyval) list" where
  "record_score scores key score =
     (if contains zh_structure key \<or> contains (asc ''structure'') key
        then dict_set scores k_structure (PFloat score)
      else if contains zh_style key \<or> contains (asc ''style'') key
        then dict_set scores k_style (PFloat score)
      else if contains zh_error key \<or> contains (asc ''error'') key
        then dict_set scores k_error_handling (PFloat score)
      else if contains zh_readable key \<or> contains (asc ''read'') key
        then dict_set scores k_readability (PFloat score)
      else if contains zh_performance key \<or> contains (asc ''performance'') key
        then dict_set scores k_performance (PFloat score)
      else scores)"

text \<open>One match of a score pattern (lines 452--465); \<open>float\<close> raising ends the scan.\<close>

definition record_match ::
  "nat \<Rightarrow> exn + (ustr \<times> pyval) list \<Rightarrow> ustr list \<Rightarrow> exn + (ustr \<times> pyval) list" where
  "record_match k acc ps =
     and_then acc (\<lambda>scores.
       and_then (py_float (group2 k ps)) (\<lambda>score.
         Inr (record_score scores (py_lower (strip (group1 ps))) score)))"

text \<open>The two nested loops of lines 449--465.\<close>

definition scan_scores :: "ustr \<Rightarrow> exn + (ustr \<times> pyval) list" where
  "scan_scores text =
     foldl (\<lambda>acc (its, k). foldl (record_match k) acc (finditer its text))
       (Inr []) score_patterns"

text \<open>
  The analysis patterns (lines 472--476), searched with \<open>re.IGNORECASE\<close>: a label, a
  colon of either width, and \<open>(.*?)(?=\n|$)\<close>. Since \<open>.\<close> does not match a line break,
  the shortest text followed by a line break or the end is the rest of the line, which
  is what the greedy run of non-newline characters takes. Under \<open>IGNORECASE\<close> the
  letter \<open>s\<close> also matches U+017F and \<open>i\<close> also matches U+0130 and U+0131; the Chinese
  labels match only themselves.
\<close>

definition nocase :: "nat \<Rightarrow> nat \<Rightarrow> bool" where
  "nocase l c =
     (c = l \<or> (97 \<le> l \<and> l \<le> 122 \<and> c + 32 = l)
      \<or> (l = 115 \<and> c = 383) \<or> (l = 105 \<and> (c = 304 \<or> c = 305)))"

definition label_pattern :: "ustr \<Rightarrow> item list" where
  "label_pattern label =
     map (\<lambda>l. One (nocase l)) label
     @ [One (\<lambda>c. c = colon \<or> c = wide_colon), Many 0 (\<lambda>c. c \<noteq> newline)]"

definition analysis_patterns :: "item list list" where
  "analysis_patterns =
     [label_pattern zh_analysis, label_pattern (asc ''analysis''),
      label_pattern zh_evaluation_result]"

text \<open>The loop of lines 479--483: the first pattern found gives the analysis text.\<close>

fun find_analysis :: "item list list \<Rightarrow> ustr \<Rightarrow> ustr" where
  "find_analysis [] text = no_analysis"
| "find_analysis (p # ps) text =
     (case search p text of
        Some (i, pieces) \<Rightarrow> strip (last pieces)
      | None \<Rightarrow> find_analysis ps text)"

definition sum_scores :: "(ustr \<times> pyval) list \<Rightarrow> rat" where
  "sum_scores scores = sum_list (map (\<lambda>kv. case snd kv of PFloat r \<Rightarrow> r | _ \<Rightarrow> 0) scores)"

text \<open>\<open>_extract_scores_from_text\<close>: any exception gives the default report.\<close>

definition extract_scores_from_text :: "ustr \<Rightarrow> pyval" where
  "extract_scores_from_text text =
     (case scan_scores text of
        Inl e \<Rightarrow> get_default_evaluation
      | Inr scores \<Rightarrow>
          if scores \<noteq> [] then
            PDict [(k_scores, PDict scores),
                   (k_total_score, PFloat (sum_scores scores / of_nat (length scores))),
                   (k_analysis, PStr (find_analysis analysis_patterns text))]
          else get_default_evaluation)"

subsection \<open>\_evaluate\_code\<close>

text \<open>
  What a streamed model call delivers: the request itself may raise, or it yields
  chunks and then ends, normally or with an exception. A chunk carries
  \<open>choices[0].delta.content\<close>, a string or \<open>None\<close>, or has no choice at all, in which
  case \<open>chunk.choices[0]\<close> raises \<open>IndexError\<close>.
\<close>

datatype chunk = Delta "ustr option" | NoChoices

datatype api_reply = ApiRaise exn | ApiStream "chunk list" "exn option"

text \<open>The loop of lines 377--382: the contents that are not \<open>None\<close> and not empty.\<close>

fun collect_contents :: "chunk list \<Rightarrow> exn + ustr list" where
  "collect_contents [] = Inr []"
| "collect_contents (NoChoices # cs) = Inl IndexError"
| "collect_contents (Delta None # cs) = collect_contents cs"
| "collect_contents (Delta (Some content) # cs) =
     (if content = [] then collect_contents cs
      else map_sum id ((#) content) (collect_contents cs))"

text \<open>\<open>s.find(c)\<close> and \<open>s.rfind(c)\<close> for one character: an index, or \<open>-1\<close>.\<close>

definition py_find :: "nat \<Rightarrow> ustr \<Rightarrow> int" where
  "py_find c s = (if c \<in> set s then int (length (takeWhile (\<lambda>x. x \<noteq> c) s)) else - 1)"

definition py_rfind :: "nat \<Rightarrow> ustr \<Rightarrow> int" where
  "py_rfind c s =
     (if c \<in> set s then int (length s) - 1 - int (length (takeWhile (\<lambda>x. x \<noteq> c) (rev s)))
      else - 1)"

text \<open>\<open>s[i:j]\<close> for \<open>0 \<le> i\<close> and \<open>0 \<le> j\<close>.\<close>

definition slice :: "ustr \<Rightarrow> int \<Rightarrow> int \<Rightarrow> ustr" where
  "slice s i j = take (nat j - nat i) (drop (nat i) s)"

text \<open>
  Lines 384--399, once the reply is collected. \<open>json.loads\<close> is a parameter: \<open>loads s\<close>
  is the value parsed, or the exception raised (\<open>JSONDecodeError\<close> for text that is not
  JSON). The function returns the parsed report when it is valid and the fallback
  extraction after a \<open>JSONDecodeError\<close>; on the two paths that reach the end of the
  \<open>try\<close> without a \<open>return\<close> (no braces found, or a parsed value that fails the
  validation) the Python function returns \<open>None\<close>.
\<close>

definition parse_evaluation :: "(ustr \<Rightarrow> exn + pyval) \<Rightarrow> ustr list \<Rightarrow> exn + pyval" where
  "parse_evaluation loads evaluation_text =
     (let full_text = concat evaluation_text;
          json_start = py_find 123 full_text;
          json_end = py_rfind 125 full_text + 1
      in if 0 \<le> json_start \<and> json_start < json_end then
           (case loads (slice full_text json_start json_end) of
              Inl e \<Rightarrow>
                if e = JSONDecodeError
                then Inr (extract_scores_from_text (concat evaluation_text))
                else Inl e
            | Inr evaluation \<Rightarrow>
                if validate_evaluation_format evaluation then Inr evaluation else Inr PNone)
         else Inr PNone)"

text \<open>\<open>_evaluate_code\<close>: every exception of the body (lines 401--403) gives the default
  report.\<close>

definition evaluate_code :: "(ustr \<Rightarrow> exn + pyval) \<Rightarrow> api_reply \<Rightarrow> pyval" where
  "evaluate_code loads reply =
     (case reply of
        ApiRaise e \<Rightarrow> get_default_evaluation
      | ApiStream chunks ending \<Rightarrow>
          (case collect_contents chunks of
             Inl e \<Rightarrow> get_default_evaluation
           | Inr evaluation_text \<Rightarrow>
               (case ending of
                  Some e \<Rightarrow> get_default_evaluation
                | None \<Rightarrow>
                    (case parse_evaluation loads evaluation_text of
                       Inl e \<Rightarrow> get_default_evaluation
                     | Inr result \<Rightarrow> result))))"

section \<open>The model call\<close>

subsection \<open>\_stream\_output\<close>

record stream_state =
  full_response :: "ustr list"
  code_content :: "ustr list"
  in_code_block :: bool
  buffer :: ustr

definition stream_start :: stream_state where
  "stream_start = \<lparr>full_response = [], code_content = [], in_code_block = False, buffer = []\<rparr>"

text \<open>The loop of lines 109--133, one chunk at a time.\<close>

fun stream_chunks :: "chunk list \<Rightarrow> stream_state \<Rightarrow> exn + stream_state" where
  "stream_chunks [] st = Inr st"
| "stream_chunks (NoChoices # cs) st = Inl IndexError"
| "stream_chunks (Delta None # cs) st = stream_chunks cs st"
| "stream_chunks (Delta (Some content) # cs) st =
     (let buf = buffer st @ content;
          st1 = st\<lparr>full_response := full_response st @ [content], buffer := buf\<rparr>
      in if newline \<in> set buf \<or> 80 < length buf then
           if contains fence_open buf then
             stream_chunks cs (st1\<lparr>in_code_block := True, buffer := []\<rparr>)
           else if contains fence_close buf \<and> in_code_block st then
             stream_chunks cs (st1\<lparr>in_code_block := False, buffer := []\<rparr>)
           else if in_code_block st then
             stream_chunks cs (st1\<lparr>code_content := code_content st @ [buf], buffer := []\<rparr>)
           else stream_chunks cs (st1\<lparr>buffer := []\<rparr>)
         else stream_chunks cs st1)"

text \<open>Lines 147--151 and 566--570: the text between the first opening marker and the
  next closing marker of the whole response.\<close>

definition block_of_full_text :: "ustr \<Rightarrow> ustr \<Rightarrow> ustr" where
  "block_of_full_text code full_text =
     (let code_blocks = py_split fence_open full_text
      in if 1 < length code_blocks
         then strip (hd (py_split fence_close (code_blocks ! 1)))
         else code)"

text \<open>\<open>_stream_output\<close>: the extracted code, or the exception raised; with no code found
  that is the \<open>ValueError\<close> of line 154.\<close>

definition stream_output :: "chunk list \<Rightarrow> exn option \<Rightarrow> exn + ustr" where
  "stream_output chunks ending =
     (case stream_chunks chunks stream_start of
        Inl e \<Rightarrow> Inl e
      | Inr st \<Rightarrow>
          (case ending of
             Some e \<Rightarrow> Inl e
           | None \<Rightarrow>
               (let content = (if buffer st \<noteq> [] \<and> in_code_block st
                               then code_content st @ [buffer st] else code_content st);
                    code0 = strip (concat content);
                    full_text = concat (full_response st);
                    code = (if code0 = [] then
                              (if contains fence_open full_text
                               then block_of_full_text code0 full_text else code0)
                            else code0)
                in if code = [] then Inl ValueError else Inr code)))"

subsection \<open>call\_ai\_api and its retry decorator\<close>

text \<open>One run of the body of \<open>call_ai_api\<close>: the result, and whether
  \<open>current_api_calls\<close> was incremented (line 216, after the request returned). Each
  \<open>except\<close> clause re-raises.\<close>

definition call_attempt :: "api_reply \<Rightarrow> (exn + ustr) \<times> nat" where
  "call_attempt reply =
     (case reply of
        ApiRaise e \<Rightarrow> (Inl e, 0)
      | ApiStream chunks ending \<Rightarrow> (stream_output chunks ending, 1))"

text \<open>\<open>retry_if_exception_type((RequestException, JSONDecodeError, ValueError))\<close>\<close>

definition retryable :: "exn \<Rightarrow> bool" where
  "retryable e = (e \<in> set [Timeout, RequestException, JSONDecodeError, ValueError])"

text \<open>\<open>wait_exponential(multiplier=2, min=4, max=60)\<close> of the tenacity library, in seconds
  after the attempt of the given number: \<open>multiplier * 2 ** (attempt - 1)\<close>, clamped.\<close>

definition wait_exponential :: "nat \<Rightarrow> nat" where
  "wait_exponential attempt = max 4 (min (2 * 2 ^ (attempt - 1)) 60)"

record call_result =
  outcome :: "exn + ustr"
  attempts :: nat
  waits :: "nat list"
  api_calls :: nat

text \<open>
  The decorated \<open>call_ai_api\<close>: \<open>stop_after_attempt(3)\<close> with \<open>reraise=True\<close>. The reply to
  each attempt is given by its number. \<open>left\<close> counts the attempts still allowed after
  the current one. An exception that is not retryable, or the exception of the last
  attempt, is raised to the caller.
\<close>

fun attempt_loop :: "nat \<Rightarrow> nat \<Rightarrow> (nat \<Rightarrow> api_reply) \<Rightarrow> call_result" where
  "attempt_loop 0 attempt replies =
     (case call_attempt (replies attempt) of
        (r, calls) \<Rightarrow> \<lparr>outcome = r, attempts = attempt, waits = [], api_calls = calls\<rparr>)"
| "attempt_loop (Suc left) attempt replies =
     (case call_attempt (replies attempt) of
        (Inr code, calls) \<Rightarrow>
          \<lparr>outcome = Inr code, attempts = attempt, waits = [], api_calls = calls\<rparr>
      | (Inl e, calls) \<Rightarrow>
          if retryable e then
            (let r = attempt_loop left (Suc attempt) replies
             in r\<lparr>waits := wait_exponential attempt # waits r,
                   api_calls := calls + api_calls r\<rparr>)
          else \<lparr>outcome = Inl e, attempts = attempt, waits = [], api_calls = calls\<rparr>)"

definition call_ai_api :: "(nat \<Rightarrow> api_reply) \<Rightarrow> call_result" where
  "call_ai_api replies = attempt_loop 2 1 replies"

subsection \<open>\_get\_improvement\_suggestions and \_apply\_improvements\<close>

text \<open>The loop of lines 546--561; the state is \<open>full_response\<close>, \<open>code_content\<close> and
  \<open>in_code_block\<close>.\<close>

fun suggestion_chunks ::
  "chunk list \<Rightarrow> ustr list \<times> ustr list \<times> bool \<Rightarrow> exn + ustr list \<times> ustr list \<times> bool" where
  "suggestion_chunks [] st = Inr st"
| "suggestion_chunks (NoChoices # cs) st = Inl IndexError"
| "suggestion_chunks (Delta None # cs) st = suggestion_chunks cs st"
| "suggestion_chunks (Delta (Some content) # cs) (full, code, inside) =
     (if contains fence_open content then suggestion_chunks cs (full @ [content], code, True)
      else if contains fence_close content \<and> inside
        then suggestion_chunks cs (full @ [content], code, False)
      else if inside then suggestion_chunks cs (full @ [content], code @ [content], inside)
      else suggestion_chunks cs (full @ [content], code, inside))"

text \<open>\<open>_get_improvement_suggestions\<close>: the code found, or \<open>None\<close>; every exception gives
  \<open>None\<close>.\<close>

definition get_improvement_suggestions :: "api_reply \<Rightarrow> ustr option" where
  "get_improvement_suggestions reply =
     (case reply of
        ApiRaise e \<Rightarrow> None
      | ApiStream chunks ending \<Rightarrow>
          (case suggestion_chunks chunks ([], [], False) of
             Inl e \<Rightarrow> None
           | Inr (full, content, inside) \<Rightarrow>
               (case ending of
                  Some e \<Rightarrow> None
                | None \<Rightarrow>
                    (let code0 = strip (concat content);
                         code = (if code0 = [] then block_of_full_text code0 (concat full)
                                 else code0)
                     in if code = [] then None else Some code))))"

text \<open>\<open>_apply_improvements\<close>\<close>

definition apply_improvements :: "(ustr \<Rightarrow> bool) \<Rightarrow> ustr option \<Rightarrow> ustr option" where
  "apply_improvements compiles improvements =
     (case improvements of
        None \<Rightarrow> None
      | Some c \<Rightarrow>
          if c = [] then None
          else if validate_code compiles (PStr c) then Some c
          else None)"

section \<open>The controller's state and the version store\<close>

text \<open>
  \<open>project_state\<close>, the parts of \<open>config\<close> the controller reads, and the two facts about
  its surroundings it tests: whether \<open>self.file_manager\<close> is set and whether
  \<open>PathConfig.OUTPUT_DIR\<close> is. \<open>version\<close>, \<open>history\<close> and \<open>user_feedback\<close> are Python
  values, since a loaded checkpoint may put any JSON value there. A key of \<open>code\<close> is
  the path of a file as text, written relative to the project root.
\<close>

record developer =
  code :: "(ustr \<times> ustr) list"
  current_code :: ustr
  version :: pyval
  history :: pyval
  user_feedback :: pyval
  file_manager :: bool
  output_dir :: bool
  current_api_calls :: nat

record config =
  max_iterations :: int
  min_improvement_score :: rat
  auto_save :: bool

text \<open>The state \<open>__init__\<close> builds (lines 91--99).\<close>

definition new_developer :: "ustr \<Rightarrow> developer" where
  "new_developer initial_prompt =
     \<lparr>code = [], current_code = initial_prompt, version = PInt 0, history = PList [],
      user_feedback = PList [], file_manager = False, output_dir = False,
      current_api_calls = 0\<rparr>"

text \<open>\<open>DEV_CONFIG\<close> of \<open>config.py\<close>.\<close>

definition dev_config :: config where
  "dev_config = \<lparr>max_iterations = 5, min_improvement_score = 7/10, auto_save = True\<rparr>"

subsection \<open>The file system\<close>

text \<open>
  The tree under the project root: each entry is the path of a directory or of a file
  with its text, as a list of names from the root (the root itself is the empty path).
  The order of the entries is the order in which a directory listing gives them.
\<close>

datatype fnode = FDir | FFile ustr

type_synonym path = "ustr list"
type_synonym fsys = "(path \<times> fnode) list"

text \<open>\<open>Path.mkdir(exist_ok=True)\<close>: fails on a file of that name and without the parent.\<close>

definition fs_mkdir :: "fsys \<Rightarrow> path \<Rightarrow> exn + fsys" where
  "fs_mkdir fs p =
     (case map_of fs p of
        Some FDir \<Rightarrow> Inr fs
      | Some (FFile c) \<Rightarrow> Inl OSError
      | None \<Rightarrow>
          (case map_of fs (butlast p) of
             Some FDir \<Rightarrow> Inr (fs @ [(p, FDir)])
           | _ \<Rightarrow> Inl OSError))"

text \<open>\<open>open(p, 'w')\<close> and a complete write: fails on a directory and without the parent.\<close>

definition fs_write :: "fsys \<Rightarrow> path \<Rightarrow> ustr \<Rightarrow> exn + fsys" where
  "fs_write fs p c =
     (case map_of fs p of
        Some FDir \<Rightarrow> Inl OSError
      | _ \<Rightarrow>
          (case map_of fs (butlast p) of
             Some FDir \<Rightarrow> Inr (dict_set fs p (FFile c))
           | _ \<Rightarrow> Inl OSError))"


text \<open>\<open>str(i)\<close> for an \<open>int\<close>\<close>

fun digits_of :: "nat \<Rightarrow> ustr" where
  "digits_of n = (if n < 10 then [48 + n] else digits_of (n div 10) @ [48 + n mod 10])"

declare digits_of.simps [simp del]

definition py_str_int :: "int \<Rightarrow> ustr" where
  "py_str_int i = (if i < 0 then 45 # digits_of (nat (- i)) else digits_of (nat i))"

text \<open>\<open>f"v{version}"\<close>; how a version that is not an \<open>int\<close> prints is a parameter.\<close>

definition version_name :: "(pyval \<Rightarrow> ustr) \<Rightarrow> pyval \<Rightarrow> ustr" where
  "version_name str_other v =
     118 # (case v of PInt i \<Rightarrow> py_str_int i | _ \<Rightarrow> str_other v)"

definition main_py :: ustr where "main_py = asc ''main.py''"
definition checkpoint_json :: ustr where "checkpoint_json = asc ''checkpoint.json''"

text \<open>\<open>str(path)\<close>, relative to the root\<close>

fun path_str :: "path \<Rightarrow> ustr" where
  "path_str [] = []"
| "path_str [n] = n"
| "path_str (n # ns) = n @ 47 # path_str ns"

text \<open>\<open>version + 1\<close>\<close>

fun py_add_one :: "pyval \<Rightarrow> exn + pyval" where
  "py_add_one (PInt i) = Inr (PInt (i + 1))"
| "py_add_one (PBool b) = Inr (PInt (if b then 2 else 1))"
| "py_add_one (PFloat r) = Inr (PFloat (r + 1))"
| "py_add_one PNaN = Inr PNaN"
| "py_add_one (PInf s) = Inr (PInf s)"
| "py_add_one v = Inl TypeError"

subsection \<open>\_save\_current\_version\<close>

text \<open>
  What the surroundings decide in one save: where an operating-system error strikes, if
  anywhere (a write that fails leaves behind the text that reached the file), the clock,
  the digest function, \<open>json.dump\<close>, and the printing of a version that is not an \<open>int\<close>.
\<close>

datatype save_fault =
    NoFault
  | MkdirFails
  | OpenMainFails
  | WriteMainFails ustr
  | HashFails
  | OpenCheckpointFails
  | DumpFails ustr

record save_env =
  fault :: save_fault
  now :: rat
  md5 :: "ustr \<Rightarrow> ustr"
  dumps :: "pyval \<Rightarrow> ustr"
  str_other :: "pyval \<Rightarrow> ustr"

text \<open>The checkpoint of lines 621--632.\<close>

definition checkpoint_of :: "save_env \<Rightarrow> developer \<Rightarrow> path \<Rightarrow> pyval" where
  "checkpoint_of env st main_file =
     PDict [(asc ''version'', version st),
            (asc ''timestamp'', PFloat (now env)),
            (asc ''files'',
               PDict [(path_str main_file,
                       PDict [(asc ''content'', PStr (current_code st)),
                              (asc ''hash'', PStr (md5 env (current_code st)))])]),
            (asc ''history'', history st),
            (asc ''user_feedback'', user_feedback st)]"

text \<open>
  The body of the \<open>try\<close> (lines 606--642), step by step; an exception at any step ends the
  save with what was done so far (the handler of line 644 only prints). The last
  component says whether the end of the body, the increment of line 642, was reached.
\<close>

definition main_text :: "save_env \<Rightarrow> developer \<Rightarrow> ustr" where
  "main_text env st = (case fault env of WriteMainFails part \<Rightarrow> part | _ \<Rightarrow> current_code st)"

definition checkpoint_text :: "save_env \<Rightarrow> developer \<Rightarrow> path \<Rightarrow> ustr" where
  "checkpoint_text env st main_file =
     (case fault env of
        DumpFails part \<Rightarrow> part
      | _ \<Rightarrow> dumps env (checkpoint_of env st main_file))"

definition write_failed :: "save_env \<Rightarrow> bool" where
  "write_failed env = (case fault env of WriteMainFails part \<Rightarrow> True | _ \<Rightarrow> False)"

definition dump_failed :: "save_env \<Rightarrow> bool" where
  "dump_failed env = (case fault env of DumpFails part \<Rightarrow> True | _ \<Rightarrow> False)"

text \<open>Lines 617--642: the code map, the digest, the checkpoint file, the increment.\<close>

definition save_checkpoint ::
  "save_env \<Rightarrow> developer \<Rightarrow> fsys \<Rightarrow> path \<Rightarrow> developer \<times> fsys \<times> bool" where
  "save_checkpoint env st fs version_dir =
     (let main_file = version_dir @ [main_py];
          checkpoint_file = version_dir @ [checkpoint_json];
          st1 = st\<lparr>code := dict_set (code st) (path_str main_file) (current_code st)\<rparr>
      in if fault env = HashFails then (st1, fs, False)
         else if fault env = OpenCheckpointFails then (st1, fs, False)
         else
           (case fs_write fs checkpoint_file (checkpoint_text env st1 main_file) of
              Inl e \<Rightarrow> (st1, fs, False)
            | Inr fs3 \<Rightarrow>
                if dump_failed env then (st1, fs3, False)
                else
                  (case py_add_one (version st1) of
                     Inl e \<Rightarrow> (st1, fs3, False)
                   | Inr v \<Rightarrow> (st1\<lparr>version := v\<rparr>, fs3, True))))"

text \<open>Lines 606--615: the check of the output root, the directory, the main file.\<close>

definition save_body :: "save_env \<Rightarrow> developer \<times> fsys \<Rightarrow> developer \<times> fsys \<times> bool" where
  "save_body env s =
     (let st = fst s; fs = snd s;
          version_dir = [version_name (str_other env) (version st)]
      in if output_dir st then
           (if fault env = MkdirFails then (st, fs, False)
            else
              (case fs_mkdir fs version_dir of
                 Inl e \<Rightarrow> (st, fs, False)
               | Inr fs1 \<Rightarrow>
                   if fault env = OpenMainFails then (st, fs1, False)
                   else
                     (case fs_write fs1 (version_dir @ [main_py]) (main_text env st) of
                        Inl e \<Rightarrow> (st, fs1, False)
                      | Inr fs2 \<Rightarrow>
                          if write_failed env then (st, fs2, False)
                          else save_checkpoint env st fs2 version_dir)))
         else (st, fs, False))"

text \<open>\<open>_save_current_version\<close>: the guard of lines 602--603, then the body.\<close>

definition save_current_version ::
  "save_env \<Rightarrow> config \<Rightarrow> developer \<times> fsys \<Rightarrow> developer \<times> fsys" where
  "save_current_version env cfg s =
     (if auto_save cfg then
        (if file_manager (fst s) then
           (case save_body env s of (st', fs', done) \<Rightarrow> (st', fs'))
         else s)
      else s)"

text \<open>Whether this call of \<open>_save_current_version\<close> completes a save.\<close>

definition save_succeeds :: "save_env \<Rightarrow> config \<Rightarrow> developer \<times> fsys \<Rightarrow> bool" where
  "save_succeeds env cfg s =
     (if auto_save cfg then
        (if file_manager (fst s) then
           (case save_body env s of (st', fs', done) \<Rightarrow> done)
         else False)
      else False)"

subsection \<open>load\_existing\_project\<close>
















section \<open>auto\_iterative\_development\<close>

text \<open>
  What the surroundings answer during one pass through the loop body: the replies to
  the attempts of \<open>call_ai_api\<close>, the reply to the evaluation request with the behaviour
  of \<open>json.loads\<close>, the reply to the request for improvements, the behaviour of
  \<open>compile\<close>, and the surroundings of the save.
\<close>

record world =
  gen_replies :: "nat \<Rightarrow> api_reply"
  eval_reply :: api_reply
  eval_loads :: "ustr \<Rightarrow> exn + pyval"
  imp_reply :: api_reply
  compiles_ok :: "ustr \<Rightarrow> bool"
  save_io :: save_env

text \<open>\<open>f"{score:.2f}"\<close> formats a number and raises for anything else.\<close>

fun format_2f :: "pyval \<Rightarrow> exn option" where
  "format_2f (PInt i) = None"
| "format_2f (PBool b) = None"
| "format_2f (PFloat r) = None"
| "format_2f PNaN = None"
| "format_2f (PInf s) = None"
| "format_2f (PStr s) = Some ValueError"
| "format_2f v = Some TypeError"

text \<open>\<open>score >= min_score\<close> against a \<open>float\<close>\<close>

fun score_ge :: "pyval \<Rightarrow> rat \<Rightarrow> exn + bool" where
  "score_ge (PInt i) m = Inr (m \<le> of_int i)"
| "score_ge (PBool b) m = Inr (m \<le> (if b then 1 else 0))"
| "score_ge (PFloat r) m = Inr (m \<le> r)"
| "score_ge PNaN m = Inr False"
| "score_ge (PInf s) m = Inr s"
| "score_ge v m = Inl TypeError"

text \<open>How one pass through the body of the \<open>while\<close> loop ends: at the increment of line
  308, at the \<open>break\<close> of line 290, at the \<open>return False\<close> of line 277, or with an
  exception, which the handler of line 310 catches.\<close>

datatype body_exit = Advance | EarlyBreak | ReturnFalse | Raised exn

text \<open>Lines 269--277, the first iteration.\<close>

definition first_iteration ::
  "world \<Rightarrow> config \<Rightarrow> developer \<times> fsys \<Rightarrow> body_exit \<times> developer \<times> fsys" where
  "first_iteration w cfg s =
     (let r = call_ai_api (gen_replies w);
          st1 = (fst s)\<lparr>current_api_calls := current_api_calls (fst s) + api_calls r\<rparr>
      in case outcome r of
           Inl e \<Rightarrow> (Raised e, st1, snd s)
         | Inr initial_response \<Rightarrow>
             if initial_response \<noteq> [] then
               (case save_current_version (save_io w) cfg
                       (st1\<lparr>current_code := initial_response\<rparr>, snd s) of
                  (st2, fs2) \<Rightarrow> (Advance, st2, fs2))
             else (ReturnFalse, st1, snd s))"

text \<open>Lines 293--304, the improvement step.\<close>

definition improvement_step ::
  "world \<Rightarrow> config \<Rightarrow> developer \<times> fsys \<Rightarrow> developer \<times> fsys" where
  "improvement_step w cfg s =
     (case get_improvement_suggestions (imp_reply w) of
        None \<Rightarrow> s
      | Some improvements \<Rightarrow>
          if improvements \<noteq> [] then
            (case apply_improvements (compiles_ok w) (Some improvements) of
               None \<Rightarrow> s
             | Some improved_code \<Rightarrow>
                 if improved_code \<noteq> [] then
                   save_current_version (save_io w) cfg
                     ((fst s)\<lparr>current_code := improved_code\<rparr>, snd s)
                 else s)
          else s)"

text \<open>Lines 282--306, a later iteration.\<close>

definition later_iteration ::
  "world \<Rightarrow> config \<Rightarrow> developer \<times> fsys \<Rightarrow> body_exit \<times> developer \<times> fsys" where
  "later_iteration w cfg s =
     (let evaluation = evaluate_code (eval_loads w) (eval_reply w)
      in if py_truthy evaluation then
           (case py_getitem evaluation (PStr k_score) of
              Inl e \<Rightarrow> (Raised e, s)
            | Inr score \<Rightarrow>
                (case format_2f score of
                   Some e \<Rightarrow> (Raised e, s)
                 | None \<Rightarrow>
                     (case score_ge score (min_improvement_score cfg) of
                        Inl e \<Rightarrow> (Raised e, s)
                      | Inr reached \<Rightarrow>
                          if reached then (EarlyBreak, s)
                          else (Advance, improvement_step w cfg s))))
         else (Advance, s))"

definition loop_body ::
  "world \<Rightarrow> config \<Rightarrow> nat \<Rightarrow> developer \<times> fsys \<Rightarrow> body_exit \<times> developer \<times> fsys" where
  "loop_body w cfg iteration_count s =
     (if iteration_count = 0 then first_iteration w cfg s else later_iteration w cfg s)"

text \<open>
  The \<open>while\<close> loop of lines 264--316. The loop may run for ever, so it is given fuel:
  each pass through the body takes one unit, and \<open>None\<close> says that the fuel ran out
  before the loop ended. \<open>env k\<close> is what the surroundings answer during pass \<open>k\<close>. The
  result is how the last pass ended (\<open>Advance\<close> when the loop condition failed), the
  number of passes made, and the iteration count and the state at the end.
\<close>

fun auto_loop ::
  "nat \<Rightarrow> (nat \<Rightarrow> world) \<Rightarrow> config \<Rightarrow> nat \<Rightarrow> nat \<Rightarrow> developer \<times> fsys \<Rightarrow>
   (body_exit \<times> nat \<times> nat \<times> developer \<times> fsys) option" where
  "auto_loop 0 env cfg k i s = None"
| "auto_loop (Suc fuel) env cfg k i s =
     (if int i < max_iterations cfg then
        (case loop_body (env k) cfg i s of
           (Advance, s1) \<Rightarrow> auto_loop fuel env cfg (Suc k) (Suc i) s1
         | (EarlyBreak, s1) \<Rightarrow> Some (EarlyBreak, Suc k, i, s1)
         | (ReturnFalse, s1) \<Rightarrow> Some (ReturnFalse, Suc k, i, s1)
         | (Raised e, s1) \<Rightarrow>
             if int i < max_iterations cfg - 1 then auto_loop fuel env cfg (Suc k) i s1
             else Some (Raised e, Suc k, i, s1))
      else Some (Advance, k, i, s))"

text \<open>\<open>user_feedback.append(goals)\<close>; only a list has \<open>append\<close>.\<close>

definition py_append :: "pyval \<Rightarrow> pyval \<Rightarrow> exn + pyval" where
  "py_append l x = (case l of PList xs \<Rightarrow> Inr (PList (xs @ [x])) | _ \<Rightarrow> Inl AttributeError)"

text \<open>Lines 322--327: the final evaluation, whose score is printed; then \<open>return True\<close>.\<close>

definition final_report :: "world \<Rightarrow> exn + pyval" where
  "final_report w =
     (let final_evaluation = evaluate_code (eval_loads w) (eval_reply w)
      in if py_truthy final_evaluation then
           and_then (py_getitem final_evaluation (PStr k_score)) (\<lambda>score.
             case format_2f score of Some e \<Rightarrow> Inl e | None \<Rightarrow> Inr (PBool True))
         else Inr (PBool True))"

text \<open>
  \<open>auto_iterative_development\<close>: \<open>None\<close> when the fuel runs out in the loop; otherwise
  what the call returns or raises (Python's \<open>None\<close> without a file manager), the number
  of passes through the loop body, and the state at the end.
\<close>

definition auto_iterative_development ::
  "nat \<Rightarrow> (nat \<Rightarrow> world) \<Rightarrow> config \<Rightarrow> pyval \<Rightarrow> developer \<times> fsys \<Rightarrow>
   ((exn + pyval) \<times> nat \<times> developer \<times> fsys) option" where
  "auto_iterative_development fuel env cfg improvement_goals s =
     (if file_manager (fst s) then
        (case py_append (user_feedback (fst s)) improvement_goals of
           Inl e \<Rightarrow> Some (Inl e, 0, s)
         | Inr feedback \<Rightarrow>
             (case auto_loop fuel env cfg 0 0 ((fst s)\<lparr>user_feedback := feedback\<rparr>, snd s) of
                None \<Rightarrow> None
              | Some (ex, k, i, s1) \<Rightarrow>
                  if ex = ReturnFalse then Some (Inr (PBool False), k, s1)
                  else Some (final_report (env k), k, s1)))
      else Some (Inr PNone, 0, s))"

section \<open>Sample inputs\<close>

text \<open>Concrete surroundings and states, on which the theorems below are exercised.\<close>

definition sample_save_env :: save_env where
  "sample_save_env =
     \<lparr>fault = NoFault, now = 1700000000, md5 = (\<lambda>c. asc ''0cc175b9c0f1b6a831c399e269772661''),
      dumps = (\<lambda>v. asc ''{}''), str_other = (\<lambda>v. asc ''?'')\<rparr>"

text \<open>A controller after a successful \<open>init_file_manager\<close>.\<close>

definition ready_developer :: "ustr \<Rightarrow> developer" where
  "ready_developer c = (new_developer c)\<lparr>file_manager := True, output_dir := True\<rparr>"

text \<open>Line 721--722 on its own: \<open>code[:-3]\<close> when the text ends with the closing marker.\<close>

definition drop_closing :: "ustr \<Rightarrow> ustr" where
  "drop_closing s = (if endswith fence_close s then take (length s - 3) s else s)"

text \<open>A \<open>compile\<close> that accepts every text.\<close>

definition accepts_all :: "ustr \<Rightarrow> bool" where
  "accepts_all c = True"

text \<open>A program of ten lines, four of them empty.\<close>

definition sparse_code :: ustr where
  \<open>sparse_code =
     asc ''import os'' @ [10, 10, 10, 10, 10]
     @ asc ''class A:'' @ [10]
     @ asc ''    """d"""'' @ [10]
     @ asc ''    def f(self):'' @ [10]
     @ asc ''        try: pass'' @ [10]
     @ asc ''        except Exception: pass''\<close>






text \<open>A text with white space around it and a closing marker.\<close>

definition fenced_tail :: ustr where
  "fenced_tail = asc ''  x = 1'' @ [10] @ fence_close @ asc ''  ''"

section \<open>Properties of evaluation reports\<close>

text \<open>The slice \<open>full_text[json_start:json_end]\<close> of lines 388--391, when the test of line
  390 passes.\<close>

definition json_part :: "ustr \<Rightarrow> ustr option" where
  "json_part full_text =
     (let json_start = py_find 123 full_text;
          json_end = py_rfind 125 full_text + 1
      in if 0 \<le> json_start \<and> json_start < json_end
         then Some (slice full_text json_start json_end) else None)"

text \<open>A value is a number in \<open>[0, 1]\<close>.\<close>

definition unit_number :: "pyval \<Rightarrow> bool" where
  "unit_number v = (in_unit v = Inr True)"

text \<open>Every score the dict \<open>scores\<close> carries is a number in \<open>[0, 1]\<close>.\<close>

definition unit_scores :: "(ustr \<times> pyval) list \<Rightarrow> bool" where
  "unit_scores scores =
     list_all (\<lambda>k. case map_of scores k of Some v \<Rightarrow> unit_number v | None \<Rightarrow> False)
       (map fst scores)"

text \<open>A report: a dict whose \<open>scores\<close> is a dict of numbers in \<open>[0, 1]\<close> and whose
  \<open>total_score\<close> is a number in \<open>[0, 1]\<close>.\<close>

definition report_in_range :: "pyval \<Rightarrow> bool" where
  "report_in_range r =
     (case r of
        PDict kvs \<Rightarrow>
          (case map_of kvs k_scores of
             Some (PDict scores) \<Rightarrow>
               unit_scores scores \<and>
               (case map_of kvs k_total_score of Some t \<Rightarrow> unit_number t | None \<Rightarrow> False)
           | _ \<Rightarrow> False)
      | _ \<Rightarrow> False)"

text \<open>The five canonical dimensions are all present in the report's \<open>scores\<close>.\<close>

definition has_five_dimensions :: "pyval \<Rightarrow> bool" where
  "has_five_dimensions r =
     (case r of
        PDict kvs \<Rightarrow>
          (case map_of kvs k_scores of
             Some (PDict scores) \<Rightarrow> list_all (\<lambda>k. k \<in> set (map fst scores)) required_scores
           | _ \<Rightarrow> False)
      | _ \<Rightarrow> False)"

text \<open>The scores of a fallback scan are floats in \<open>[0, 1]\<close>.\<close>

definition float_scores :: "(ustr \<times> pyval) list \<Rightarrow> bool" where
  "float_scores scores = list_all (\<lambda>kv. case snd kv of PFloat r \<Rightarrow> 0 \<le> r \<and> r \<le> 1 | _ \<Rightarrow> False) scores"

text \<open>The accumulator of the scan, when it holds scores, holds floats in \<open>[0, 1]\<close>.\<close>

definition acc_ok :: "exn + (ustr \<times> pyval) list \<Rightarrow> bool" where
  "acc_ok acc = (case acc of Inl e \<Rightarrow> True | Inr scores \<Rightarrow> float_scores scores)"

text \<open>The mean of the five canonical dimension scores of a report.\<close>

definition dimension_mean :: "pyval \<Rightarrow> rat" where
  "dimension_mean r =
     (case r of
        PDict kvs \<Rightarrow>
          (case map_of kvs k_scores of
             Some (PDict scores) \<Rightarrow>
               sum_list (map (\<lambda>k. case map_of scores k of
                                     Some (PFloat x) \<Rightarrow> x
                                   | Some (PInt i) \<Rightarrow> of_int i
                                   | Some (PBool b) \<Rightarrow> (if b then 1 else 0)
                                   | _ \<Rightarrow> 0) required_scores) / 5
           | _ \<Rightarrow> 0)
      | _ \<Rightarrow> 0)"

text \<open>A reply that is a well-formed report, with the value \<open>json.loads\<close> gives for it
  (the reply of the specification's scenario B).\<close>

definition solid_text :: ustr where
  \<open>solid_text =
     asc ''{"scores":{"structure":0.9,"style":0.8,"error_handling":0.7,''
     @ asc ''"readability":0.9,"performance":0.6},"total_score":0.78,''
     @ asc ''"analysis":"solid overall"}''\<close>

definition solid_report :: pyval where
  "solid_report =
     PDict [(k_scores,
             PDict [(k_structure, PFloat (9/10)), (k_style, PFloat (8/10)),
                    (k_error_handling, PFloat (7/10)), (k_readability, PFloat (9/10)),
                    (k_performance, PFloat (6/10))]),
            (k_total_score, PFloat (78/100)),
            (k_analysis, PStr (asc ''solid overall''))]"

definition solid_loads :: "ustr \<Rightarrow> exn + pyval" where
  "solid_loads s = (if s = solid_text then Inr solid_report else Inl JSONDecodeError)"

text \<open>A reply whose \<open>total_score\<close> is far from the mean of its scores.\<close>

definition skewed_text :: ustr where
  \<open>skewed_text =
     asc ''{"scores":{"structure":0.9,"style":0.9,"error_handling":0.9,''
     @ asc ''"readability":0.9,"performance":0.9},"total_score":0.1,''
     @ asc ''"analysis":"all dimensions are strong"}''\<close>

definition skewed_report :: pyval where
  "skewed_report =
     PDict [(k_scores,
             PDict [(k_structure, PFloat (9/10)), (k_style, PFloat (9/10)),
                    (k_error_handling, PFloat (9/10)), (k_readability, PFloat (9/10)),
                    (k_performance, PFloat (9/10))]),
            (k_total_score, PFloat (1/10)),
            (k_analysis, PStr (asc ''all dimensions are strong''))]"

definition skewed_loads :: "ustr \<Rightarrow> exn + pyval" where
  "skewed_loads s = (if s = skewed_text then Inr skewed_report else Inl JSONDecodeError)"

text \<open>The reply \<open>{}\<close>, which \<open>json.loads\<close> reads as the empty dict.\<close>

definition empty_object_loads :: "ustr \<Rightarrow> exn + pyval" where
  "empty_object_loads s = (if s = asc ''{}'' then Inr (PDict []) else Inl JSONDecodeError)"

text \<open>The reply of the specification's scenario C: two labelled scores in Chinese, each
  followed by a line break, and no brace.\<close>

definition two_scores_text :: ustr where
  "two_scores_text =
     [32467, 26500, 58, 32, 48, 46, 54, 10, 39118, 26684, 58, 32, 48, 46, 55, 10]"


definition fenced_reply :: api_reply where
  "fenced_reply =
     ApiStream [Delta (Some (asc ''Here is the code:'' @ [10])),
                Delta (Some (fence_open @ [10])),
                Delta (Some (asc ''x = 1'' @ [10])),
                Delta (Some (fence_close @ [10]))] None"


text \<open>A model endpoint that is down: every request raises an error of the client
  library, which the retry decorator does not list.\<close>

definition down_world :: world where
  "down_world =
     \<lparr>gen_replies = (\<lambda>n. ApiRaise OtherError),
      eval_reply = ApiRaise OtherError,
      eval_loads = (\<lambda>s. Inl JSONDecodeError),
      imp_reply = ApiRaise OtherError,
      compiles_ok = accepts_all,
      save_io = sample_save_env\<rparr>"

text \<open>A model that works: it generates code, and it evaluates with the well-formed
  report of scenario B, which has no key \<open>score\<close>.\<close>

definition steady_world :: world where
  "steady_world =
     \<lparr>gen_replies = (\<lambda>n. fenced_reply),
      eval_reply = ApiStream [Delta (Some solid_text)] None,
      eval_loads = solid_loads,
      imp_reply = fenced_reply,
      compiles_ok = accepts_all,
      save_io = sample_save_env\<rparr>"

definition todo_goal :: pyval where
  "todo_goal = PStr (asc ''build a CLI todo app'')"

section \<open>Runs of saves\<close>










section \<open>Facts about strings\<close>

text \<open>The definitions that evaluate the string operations on a given text.\<close>

lemmas str_eval = strip_def py_isspace_def fence_open_def fence_close_def asc_def
  startswith_def endswith_def py_split_def newline_def












section \<open>Facts about validate\_code\<close>

lemma strip_idem: "strip (strip s) = strip s"
proof -
  let ?P = py_isspace
  define u where "u = dropWhile ?P (rev (dropWhile ?P s))"
  have u: "u = [] \<or> \<not> ?P (hd u)" unfolding u_def by (metis hd_dropWhile)
  have "rev u = [] \<or> \<not> ?P (hd (rev u))"
  proof (cases "u = []")
    case True then show ?thesis by simp
  next
    case False
    have ne: "dropWhile ?P s \<noteq> []"
    proof
      assume a: "dropWhile ?P s = []"
      have "u = dropWhile ?P (rev [])" unfolding u_def a ..
      with False show False by simp
    qed
    have "\<exists>pre. rev (dropWhile ?P s) = pre @ u" unfolding u_def
      by (metis takeWhile_dropWhile_id)
    then obtain pre where "rev (dropWhile ?P s) = pre @ u" by blast
    then have "dropWhile ?P s = rev u @ rev pre" by (metis rev_append rev_rev_ident)
    then have "hd (dropWhile ?P s) = hd (rev u)" using False by simp
    then show ?thesis using ne by (metis hd_dropWhile)
  qed
  then have 1: "dropWhile ?P (rev u) = rev u" by (simp add: dropWhile_eq_self_iff)
  have 2: "dropWhile ?P u = u" using u by (simp add: dropWhile_eq_self_iff)
  have "strip s = rev u" by (simp add: strip_def u_def)
  moreover have "strip (rev u) = rev u" unfolding strip_def using 1 2 by simp
  ultimately show ?thesis by simp
qed

lemma strip_strip_fences: "strip (strip_fences c) = strip_fences c"
  by (simp add: strip_fences_def Let_def strip_idem)

lemma split_from_newline_length:
  "length (split_from [newline] cur s) = Suc (count_list s newline)"
proof (induction s arbitrary: cur)
  case Nil
  then show ?case by simp
next
  case (Cons c cs)
  then show ?case by (simp add: startswith_def)
qed

lemma py_split_lines: "length (py_split [newline] s) = Suc (count_list s newline)"
  by (simp add: py_split_def split_from_newline_length)

section \<open>The save guard\<close>

text \<open>
  C10. When the \<open>auto_save\<close> flag is false or the file manager is unset,
  \<open>_save_current_version\<close> returns at once: the file system and every field of the
  state (content, version, history, feedback, code map) are as before, whatever the
  surroundings would have answered, and the call does not count as a save.
\<close>

theorem save_guard_frame:
  "\<not> auto_save cfg \<or> \<not> file_manager st \<Longrightarrow>
   save_current_version env cfg (st, fs) = (st, fs) \<and> \<not> save_succeeds env cfg (st, fs)"
  by (auto simp: save_current_version_def save_succeeds_def)

theorem save_guard_frame_witness:
  "\<not> auto_save (dev_config\<lparr>auto_save := False\<rparr>)
   \<and> save_current_version sample_save_env (dev_config\<lparr>auto_save := False\<rparr>)
        (ready_developer (asc ''x = 1''), [([], FDir)])
      = (ready_developer (asc ''x = 1''), [([], FDir)])
   \<and> file_manager (new_developer (asc ''x = 1'')) = False
   \<and> save_current_version sample_save_env dev_config (new_developer (asc ''x = 1''), [([], FDir)])
      = (new_developer (asc ''x = 1''), [([], FDir)])"
  using save_guard_frame[of "dev_config\<lparr>auto_save := False\<rparr>" "ready_developer (asc ''x = 1'')"
          sample_save_env "[([], FDir)]"]
        save_guard_frame[of dev_config "new_developer (asc ''x = 1'')" sample_save_env "[([], FDir)]"]
  by (simp add: dev_config_def new_developer_def)

lemmas report_keys = k_scores_def k_total_score_def k_analysis_def k_score_def
  k_structure_def k_style_def k_error_handling_def k_readability_def k_performance_def
  required_keys_def required_scores_def

lemmas eval_defs = evaluate_code_def parse_evaluation_def py_find_def py_rfind_def slice_def
  validate_evaluation_format_def validate_body_def and_then_def Let_def

lemmas validate_eval = validate_code_def strip_fences_def missing_components_def
  required_components_def dangerous_imports_def

section \<open>validate\_code: fences and the line count\<close>

text \<open>
  C7, as amended. \<open>validate_code\<close> removes the white space around the text and, when the
  text then ends with the closing marker, its last three characters; for a text
  that does not start with the opening marker that is all the stripping there is. It
  returns \<open>False\<close> whenever what is left has fewer than ten lines, that is fewer than
  nine line breaks, empty lines counted.
\<close>

theorem validate_code_line_count:
  "(\<not> startswith fence_open (strip c) \<longrightarrow> strip_fences c = strip (drop_closing (strip c)))
   \<and> (count_list (strip_fences c) newline < 9 \<longrightarrow> validate_code compiles (PStr c) = False)"
proof (intro conjI impI)
  assume "\<not> startswith fence_open (strip c)"
  then show "strip_fences c = strip (drop_closing (strip c))"
    by (simp add: strip_fences_def drop_closing_def Let_def)
next
  assume "count_list (strip_fences c) newline < 9"
  then have "length (py_split [10] (strip (strip_fences c))) < 10"
    using py_split_lines[of "strip_fences c"] by (simp add: strip_strip_fences newline_def)
  then show "validate_code compiles (PStr c) = False"
    by (simp add: validate_code_def Let_def)
qed

theorem validate_code_line_count_witness:
  "\<not> startswith fence_open (strip fenced_tail)
   \<and> strip_fences fenced_tail = asc ''x = 1''
   \<and> count_list (strip_fences fenced_tail) newline < 9
   \<and> validate_code accepts_all (PStr fenced_tail) = False"
proof -
  have 1: "\<not> startswith fence_open (strip fenced_tail)"
    by (simp add: fenced_tail_def str_eval)
  have 2: "strip (drop_closing (strip fenced_tail)) = asc ''x = 1''"
    by (simp add: fenced_tail_def drop_closing_def str_eval)
  have 3: "count_list (asc ''x = 1'') newline < 9"
    by (simp add: str_eval)
  from validate_code_line_count[of fenced_tail accepts_all] 1 2 3 show ?thesis by simp
qed

text \<open>
  C7, as stated, fails: a text of ten lines of which only six are not empty, without
  any marker, is accepted. The test of line 726 counts every line.
\<close>

theorem sparse_code_accepted:
  "validate_code accepts_all (PStr sparse_code) = True
   \<and> strip_fences sparse_code = sparse_code
   \<and> length (filter (\<lambda>l. l \<noteq> []) (py_split [newline] sparse_code)) = 6"
  by (simp add: sparse_code_def accepts_all_def validate_eval str_eval)

text \<open>With both markers present, line 720 cuts eight characters of the nine-character
  opening marker, so its last letter stays in front of the code.\<close>

lemma leading_fence_leaves_n:
  "strip_fences (fence_open @ 10 # asc ''x = 1'' @ 10 # fence_close) = asc ''n'' @ 10 # asc ''x = 1''"
  by (simp add: strip_fences_def str_eval)

lemma contains_nonempty: "contains sub s \<Longrightarrow> sub \<noteq> [] \<Longrightarrow> s \<noteq> []"
  by (cases s) auto



section \<open>The deny list\<close>



section \<open>Facts about evaluation reports\<close>

lemma all_of_True: "all_of f xs = Inr True \<Longrightarrow> x \<in> set xs \<Longrightarrow> f x = Inr True"
  by (induction xs) (auto split: sum.splits if_splits)

lemma frac_value_bounds:
  "(\<And>d. d \<in> set ds \<Longrightarrow> d \<le> 9) \<Longrightarrow> 0 \<le> frac_value ds \<and> frac_value ds < 1"
proof (induction ds)
  case Nil
  then show ?case by simp
next
  case (Cons d ds)
  have ih: "0 \<le> frac_value ds \<and> frac_value ds < 1" using Cons by simp
  have "d \<le> 9" using Cons.prems by simp
  then have "(of_nat d :: rat) \<le> 9" by (metis of_nat_le_iff of_nat_numeral)
  then show ?case using ih by simp
qed

lemma digit_value_le: "digit_value c = Some v \<Longrightarrow> v \<le> 9"
  by (auto simp: digit_value_def split: option.splits prod.splits) 

lemma py_float_bounds:
  assumes "py_float s = Inr r"
  shows "0 \<le> r \<and> r < 1"
proof -
  from assms obtain z p ds where s: "s = z # p # ds" and dig: "list_all py_isdigit ds"
    and r: "r = frac_value (map (\<lambda>c. the (digit_value c)) ds)"
    by (auto simp: py_float_def split: list.splits if_splits)
  have "d \<le> 9" if "d \<in> set (map (\<lambda>c. the (digit_value c)) ds)" for d
  proof -
    from that obtain c where c: "c \<in> set ds" "d = the (digit_value c)" by auto
    then have "py_isdigit c" using dig by (simp add: list_all_iff)
    then obtain v where "digit_value c = Some v" by (auto simp: py_isdigit_def)
    then show ?thesis using c digit_value_le by simp
  qed
  then show ?thesis unfolding r by (rule frac_value_bounds)
qed

lemma float_scores_dict_set:
  "float_scores scores \<Longrightarrow> 0 \<le> r \<Longrightarrow> r \<le> 1 \<Longrightarrow> float_scores (dict_set scores k (PFloat r))"
  by (induction scores) (auto simp: float_scores_def)

lemma float_scores_record_score:
  "float_scores scores \<Longrightarrow> 0 \<le> r \<Longrightarrow> r \<le> 1 \<Longrightarrow> float_scores (record_score scores key r)"
  by (simp add: record_score_def float_scores_dict_set)

lemma acc_ok_record_match: "acc_ok acc \<Longrightarrow> acc_ok (record_match k acc ps)"
  using py_float_bounds
  by (fastforce simp: acc_ok_def record_match_def and_then_def float_scores_record_score
      split: sum.splits)

lemma acc_ok_foldl: "acc_ok acc \<Longrightarrow> acc_ok (foldl (record_match k) acc ms)"
  by (induction ms arbitrary: acc) (auto simp: acc_ok_record_match)

lemma acc_ok_patterns:
  "acc_ok acc \<Longrightarrow>
   acc_ok (foldl (\<lambda>acc (its, k). foldl (record_match k) acc (finditer its text)) acc pats)"
  by (induction pats arbitrary: acc) (auto simp: acc_ok_foldl)

lemma scan_scores_ok: "scan_scores text = Inr scores \<Longrightarrow> float_scores scores"
proof -
  have "acc_ok (Inr [])" by (simp add: acc_ok_def float_scores_def)
  then have "acc_ok (scan_scores text)"
    unfolding scan_scores_def by (rule acc_ok_patterns)
  then show "scan_scores text = Inr scores \<Longrightarrow> float_scores scores"
    by (simp add: acc_ok_def)
qed

lemma sum_scores_bounds:
  "float_scores scores \<Longrightarrow> 0 \<le> sum_scores scores \<and> sum_scores scores \<le> of_nat (length scores)"
  by (induction scores) (auto simp: float_scores_def sum_scores_def split: pyval.splits)

lemma float_scores_unit: "float_scores scores \<Longrightarrow> unit_scores scores"
proof -
  assume a: "float_scores scores"
  have "case map_of scores k of Some v \<Rightarrow> unit_number v | None \<Rightarrow> False"
    if "k \<in> set (map fst scores)" for k
  proof -
    from that obtain v where v: "map_of scores k = Some v"
      by (metis map_of_eq_None_iff not_Some_eq set_map)
    then have "(k, v) \<in> set scores" by (rule map_of_SomeD)
    then have "case v of PFloat r \<Rightarrow> 0 \<le> r \<and> r \<le> 1 | _ \<Rightarrow> False"
      using a by (auto simp: float_scores_def list_all_iff)
    then have "unit_number v" by (cases v) (auto simp: unit_number_def)
    then show ?thesis using v by simp
  qed
  then show ?thesis by (simp add: unit_scores_def list_all_iff)
qed

lemma default_in_range: "report_in_range get_default_evaluation"
  by (simp add: report_in_range_def get_default_evaluation_def unit_scores_def unit_number_def
      report_keys asc_def)

lemma extract_in_range: "report_in_range (extract_scores_from_text text)"
proof (cases "scan_scores text")
  case (Inl e)
  then show ?thesis by (simp add: extract_scores_from_text_def default_in_range)
next
  case (Inr scores)
  show ?thesis
  proof (cases "scores = []")
    case True
    then show ?thesis using Inr by (simp add: extract_scores_from_text_def default_in_range)
  next
    case False
    have fs: "float_scores scores" using Inr by (rule scan_scores_ok)
    have len: "0 < (of_nat (length scores) :: rat)" using False by simp
    have "0 \<le> sum_scores scores / of_nat (length scores)
          \<and> sum_scores scores / of_nat (length scores) \<le> 1"
      using sum_scores_bounds[OF fs] len by (simp add: divide_le_eq)
    then have "unit_number (PFloat (sum_scores scores / of_nat (length scores)))"
      by (simp add: unit_number_def)
    moreover have "k_total_score \<noteq> k_scores" by (simp add: report_keys asc_def)
    ultimately show ?thesis
      using Inr False float_scores_unit[OF fs]
      by (simp add: extract_scores_from_text_def report_in_range_def)
  qed
qed

lemma valid_is_dict:
  assumes "validate_evaluation_format ev"
  shows "\<exists>kvs. ev = PDict kvs"
proof (cases ev)
  case (PList xs)
  then show ?thesis using assms
    by (auto simp: validate_evaluation_format_def validate_body_def and_then_def
        split: sum.splits if_splits)
next
  case (PStr s)
  then show ?thesis using assms
    by (auto simp: validate_evaluation_format_def validate_body_def and_then_def
        split: sum.splits if_splits)
qed (use assms in \<open>auto simp: validate_evaluation_format_def validate_body_def and_then_def
        required_keys_def\<close>)

lemma valid_parts:
  assumes "validate_evaluation_format (PDict kvs)"
  obtains scores keys t where
    "map_of kvs k_scores = Some scores"
    "all_of (\<lambda>key. str_in key scores) required_scores = Inr True"
    "py_iter scores = Inr keys"
    "all_of (\<lambda>key. and_then (py_getitem scores key) in_unit) keys = Inr True"
    "map_of kvs k_total_score = Some t" "in_unit t = Inr True"
proof -
  have "validate_body (PDict kvs) = Inr True"
    using assms by (auto simp: validate_evaluation_format_def split: sum.splits)
  with that[unfolded and_then_def] show ?thesis
    unfolding validate_body_def and_then_def
    by (auto split: sum.splits if_splits option.splits)
qed

lemma valid_scores_dict:
  assumes "all_of (\<lambda>key. str_in key scores) required_scores = Inr True"
    and "py_iter scores = Inr keys"
    and "all_of (\<lambda>key. and_then (py_getitem scores key) in_unit) keys = Inr True"
  shows "\<exists>skvs. scores = PDict skvs"
proof -
  have k: "k_structure \<in> set required_scores" by (simp add: required_scores_def)
  have in1: "str_in k_structure scores = Inr True" using all_of_True[OF assms(1) k] .
  have ne: "k_structure \<noteq> []" by (simp add: k_structure_def asc_def)
  show ?thesis
  proof (cases scores)
    case (PList xs)
    then have "PStr k_structure \<in> set keys" using in1 assms(2) by auto
    from all_of_True[OF assms(3) this] show ?thesis
      using PList by (simp add: and_then_def)
  next
    case (PStr s)
    then have "contains k_structure s" using in1 by simp
    then have "s \<noteq> []" using ne contains_nonempty by blast
    then obtain c cs where s: "s = c # cs" by (cases s) auto
    then have "PStr [c] \<in> set keys" using PStr assms(2) by auto
    from all_of_True[OF assms(3) this] show ?thesis
      using PStr by (simp add: and_then_def)
  qed (use assms(2) in auto)
qed

lemma valid_in_range:
  assumes "validate_evaluation_format ev"
  shows "report_in_range ev \<and> has_five_dimensions ev"
proof -
  from valid_is_dict[OF assms] obtain kvs where ev: "ev = PDict kvs" by blast
  from assms ev obtain scores keys t where p:
    "map_of kvs k_scores = Some scores"
    "all_of (\<lambda>key. str_in key scores) required_scores = Inr True"
    "py_iter scores = Inr keys"
    "all_of (\<lambda>key. and_then (py_getitem scores key) in_unit) keys = Inr True"
    "map_of kvs k_total_score = Some t" "in_unit t = Inr True"
    using valid_parts by blast
  from valid_scores_dict[OF p(2,3,4)] obtain skvs where sc: "scores = PDict skvs" by blast
  have keys: "keys = map (\<lambda>kv. PStr (fst kv)) skvs" using p(3) sc by simp
  have "case map_of skvs k of Some v \<Rightarrow> unit_number v | None \<Rightarrow> False"
    if "k \<in> set (map fst skvs)" for k
  proof -
    have "PStr k \<in> set keys" using that keys by auto
    from all_of_True[OF p(4) this] show ?thesis
      using sc by (auto simp: and_then_def unit_number_def split: option.splits sum.splits)
  qed
  then have us: "unit_scores skvs" by (simp add: unit_scores_def list_all_iff)
  have "k \<in> set (map fst skvs)" if "k \<in> set required_scores" for k
    using all_of_True[OF p(2) that] sc by simp
  then have five: "list_all (\<lambda>k. k \<in> set (map fst skvs)) required_scores"
    by (simp add: list_all_iff)
  show ?thesis
    using ev p(1,5,6) sc us five
    by (simp add: report_in_range_def has_five_dimensions_def unit_number_def)
qed

lemma parse_evaluation_json_part:
  "parse_evaluation loads texts =
     (case json_part (concat texts) of
        None \<Rightarrow> Inr PNone
      | Some js \<Rightarrow>
          (case loads js of
             Inl e \<Rightarrow> if e = JSONDecodeError then Inr (extract_scores_from_text (concat texts))
                      else Inl e
           | Inr ev \<Rightarrow> if validate_evaluation_format ev then Inr ev else Inr PNone))"
  by (simp add: parse_evaluation_def json_part_def Let_def)

lemma parse_evaluation_range:
  "parse_evaluation loads texts = Inr r \<Longrightarrow> r \<noteq> PNone \<Longrightarrow> report_in_range r"
  unfolding parse_evaluation_json_part
  by (auto split: option.splits sum.splits if_splits simp: extract_in_range valid_in_range)

section \<open>What \_evaluate\_code returns\<close>

text \<open>
  C3, as amended. Whatever \<open>json.loads\<close> does and whatever the model replies, a report
  that \<open>_evaluate_code\<close> returns (a result other than \<open>None\<close>) carries only scores that
  are numbers in \<open>[0, 1]\<close> and a \<open>total_score\<close> in \<open>[0, 1]\<close>. When the structured path
  succeeds (the slice between the braces parses and the parsed value passes the
  validation), the result is the parsed value itself, with all five dimensions
  present and the \<open>total_score\<close> the reply gave: the source never recomputes it.
\<close>

theorem evaluation_report_bounds:
  "(evaluate_code loads reply \<noteq> PNone \<longrightarrow> report_in_range (evaluate_code loads reply))
   \<and> (collect_contents chunks = Inr texts \<and> json_part (concat texts) = Some js
        \<and> loads js = Inr ev \<and> validate_evaluation_format ev
      \<longrightarrow> evaluate_code loads (ApiStream chunks None) = ev \<and> has_five_dimensions ev)"
proof (intro conjI impI)
  assume "evaluate_code loads reply \<noteq> PNone"
  then show "report_in_range (evaluate_code loads reply)"
    unfolding evaluate_code_def
    by (auto split: api_reply.splits sum.splits option.splits
        simp: default_in_range parse_evaluation_range)
next
  assume h: "collect_contents chunks = Inr texts \<and> json_part (concat texts) = Some js
        \<and> loads js = Inr ev \<and> validate_evaluation_format ev"
  then show "evaluate_code loads (ApiStream chunks None) = ev"
    by (simp add: evaluate_code_def parse_evaluation_json_part)
  show "has_five_dimensions ev" using h valid_in_range by blast
qed


lemmas stream_eval = collect_contents.simps json_part_def py_find_def py_rfind_def slice_def

theorem evaluation_report_bounds_witness:
  "evaluate_code solid_loads (ApiStream [Delta (Some solid_text)] None) = solid_report
   \<and> solid_report \<noteq> PNone
   \<and> report_in_range solid_report \<and> has_five_dimensions solid_report
   \<and> validate_evaluation_format solid_report"
proof -
  have 1: "collect_contents [Delta (Some solid_text)] = Inr [solid_text]"
    by (simp add: solid_text_def asc_def)
  have 2: "json_part (concat [solid_text]) = Some solid_text"
    by (simp add: json_part_def py_find_def py_rfind_def slice_def solid_text_def asc_def)
  have 3: "solid_loads solid_text = Inr solid_report"
    by (simp add: solid_loads_def)
  have 4: "validate_evaluation_format solid_report"
    by (simp add: solid_report_def validate_evaluation_format_def validate_body_def and_then_def
          report_keys asc_def)
  have 5: "solid_report \<noteq> PNone" by (simp add: solid_report_def)
  note inst = evaluation_report_bounds[of solid_loads "ApiStream [Delta (Some solid_text)] None"
         "[Delta (Some solid_text)]" "[solid_text]" solid_text solid_report]
  have 6: "evaluate_code solid_loads (ApiStream [Delta (Some solid_text)] None) = solid_report
           \<and> has_five_dimensions solid_report"
    using inst 1 2 3 4 by blast
  have 7: "report_in_range solid_report"
    using inst 5 6 by auto
  show ?thesis using 4 5 6 7 by simp
qed

text \<open>
  C3, as stated, fails: a reply whose five scores are all \<open>0.9\<close> and whose \<open>total_score\<close>
  is \<open>0.1\<close> passes the validation and is returned as it is; its total is not the mean of
  its dimensions.
\<close>

theorem skewed_total_returned:
  "evaluate_code skewed_loads (ApiStream [Delta (Some skewed_text)] None) = skewed_report
   \<and> py_getitem skewed_report (PStr k_total_score) = Inr (PFloat (1/10))
   \<and> dimension_mean skewed_report = 9/10"
  by (simp add: skewed_loads_def skewed_text_def skewed_report_def dimension_mean_def
        eval_defs report_keys asc_def)

text \<open>
  C2. The claim says that a report is always returned; the source misses two paths.
  Here the reply is \<open>{}\<close>: it parses, the parsed value fails the validation, and the end of
  the \<open>try\<close> block is reached without a \<open>return\<close>, so the result is \<open>None\<close> and not the
  default report.
\<close>

theorem invalid_report_gives_none:
  "evaluate_code empty_object_loads (ApiStream [Delta (Some (asc ''{}''))] None) = PNone
   \<and> \<not> report_in_range PNone"
  by (simp add: empty_object_loads_def report_in_range_def eval_defs report_keys asc_def)

lemmas regex_eval = finditer.simps score_patterns_def score_tail_def group1_def group2_def
  py_float_def py_isdigit_def digit_value_def digit_blocks_def py_lower_def lower_char_def
  colon_def wide_colon_def record_match_def record_score_def scan_scores_def
  analysis_patterns_def label_pattern_def nocase_def sum_scores_def
  zh_structure_def zh_style_def zh_error_def zh_readable_def zh_performance_def
  zh_analysis_def zh_evaluation_result_def and_then_def

text \<open>
  C5. On the reply of scenario C, which has no brace, \<open>_evaluate_code\<close> never calls
  \<open>json.loads\<close>, so no \<open>JSONDecodeError\<close> starts the fallback path, and the result is
  \<open>None\<close>. Applied to that text directly, \<open>_extract_scores_from_text\<close> does give the
  two scores, their mean (in exact arithmetic) and the placeholder analysis.
\<close>

theorem braceless_reply_gives_none:
  "evaluate_code loads (ApiStream [Delta (Some two_scores_text)] None) = PNone
   \<and> extract_scores_from_text two_scores_text
        = PDict [(k_scores, PDict [(k_structure, PFloat (3/5)), (k_style, PFloat (7/10))]),
                 (k_total_score, PFloat (13/20)),
                 (k_analysis, PStr no_analysis)]"
proof
  show "evaluate_code loads (ApiStream [Delta (Some two_scores_text)] None) = PNone"
    by (simp add: two_scores_text_def evaluate_code_def parse_evaluation_def py_find_def
          py_rfind_def)
  show "extract_scores_from_text two_scores_text
        = PDict [(k_scores, PDict [(k_structure, PFloat (3/5)), (k_style, PFloat (7/10))]),
                 (k_total_score, PFloat (13/20)),
                 (k_analysis, PStr no_analysis)]"
    by (simp add: two_scores_text_def extract_scores_from_text_def regex_eval str_eval
          report_keys no_analysis_def)
qed

section \<open>The retry policy of call\_ai\_api\<close>






lemma call_ai_api_unfold: "call_ai_api replies = attempt_loop (Suc (Suc 0)) (Suc 0) replies"
  by (simp add: call_ai_api_def numeral_2_eq_2)

lemmas call_eval = call_ai_api_unfold call_attempt_def stream_output_def stream_start_def
  block_of_full_text_def wait_exponential_def retryable_def Let_def




section \<open>The loop of auto\_iterative\_development\<close>

lemma first_iteration_down: "first_iteration down_world cfg s = (Raised OtherError, s)"
  by (simp add: first_iteration_def down_world_def call_eval)

lemma loop_down:
  "1 < max_iterations cfg \<Longrightarrow> auto_loop fuel (\<lambda>k. down_world) cfg k 0 s = None"
proof (induction fuel arbitrary: k)
  case 0
  then show ?case by simp
next
  case (Suc fuel)
  then show ?case by (simp add: loop_body_def first_iteration_down)
qed

lemma solid_evaluation:
  "evaluate_code solid_loads (ApiStream [Delta (Some solid_text)] None) = solid_report"
  by (simp add: solid_loads_def solid_text_def solid_report_def eval_defs report_keys asc_def)

lemma later_iteration_steady: "later_iteration steady_world cfg s = (Raised KeyError, s)"
  by (simp add: later_iteration_def steady_world_def solid_evaluation)
     (simp add: solid_report_def report_keys asc_def)

lemma loop_steady:
  "0 < i \<Longrightarrow> int i < max_iterations cfg - 1 \<Longrightarrow>
   auto_loop fuel (\<lambda>k. steady_world) cfg k i s = None"
proof (induction fuel arbitrary: k)
  case 0
  then show ?case by simp
next
  case (Suc fuel)
  then show ?case by (simp add: loop_body_def later_iteration_steady)
qed

lemma first_iteration_steady:
  "\<exists>s1. first_iteration steady_world cfg s = (Advance, s1)"
proof -
  have "outcome (call_ai_api (gen_replies steady_world)) = Inr (asc ''x = 1'')"
    by (simp add: steady_world_def fenced_reply_def call_eval str_eval)
  then show ?thesis
    by (simp add: first_iteration_def Let_def asc_def split: prod.splits)
qed

text \<open>
  C1. The claim bounds the loop by \<open>max_iterations\<close> passes; the source does not keep
  that bound. The handler of line 310 says that it continues with the next iteration,
  but its \<open>continue\<close> skips the increment of line 308, so the same iteration is run
  again. With the default configuration and a ready file manager the call never
  returns, however much fuel it is given, in two cases: when every request to the model
  fails (the first iteration repeats), and when the model works and evaluates with a
  well-formed report, since \<open>evaluation['score']\<close> of line 284 then raises \<open>KeyError\<close> in
  every pass (the second iteration repeats).
\<close>

theorem loop_runs_for_ever:
  "(\<forall>fuel. auto_iterative_development fuel (\<lambda>k. down_world) dev_config todo_goal
             (ready_developer [], [([], FDir)]) = None)
   \<and> (\<forall>fuel. auto_iterative_development fuel (\<lambda>k. steady_world) dev_config todo_goal
             (ready_developer [], [([], FDir)]) = None)"
proof (intro conjI allI)
  fix fuel
  show "auto_iterative_development fuel (\<lambda>k. down_world) dev_config todo_goal
          (ready_developer [], [([], FDir)]) = None"
    by (simp add: auto_iterative_development_def ready_developer_def new_developer_def
          py_append_def loop_down dev_config_def)
  have "auto_loop fuel (\<lambda>k. steady_world) dev_config 0 0 s = None" for s
  proof (cases fuel)
    case 0
    then show ?thesis by simp
  next
    case (Suc f)
    obtain s1 where "first_iteration steady_world dev_config s = (Advance, s1)"
      using first_iteration_steady by blast
    then show ?thesis
      using Suc loop_steady[of 1 dev_config f 1 s1]
      by (simp add: loop_body_def dev_config_def)
  qed
  then show "auto_iterative_development fuel (\<lambda>k. steady_world) dev_config todo_goal
          (ready_developer [], [([], FDir)]) = None"
    by (simp add: auto_iterative_development_def ready_developer_def new_developer_def
          py_append_def)
qed

section \<open>Facts about the version store\<close>



lemma map_of_append_new:
  "map_of fs p = None \<Longrightarrow> map_of (fs @ [(p, v)]) q = (if q = p then Some v else map_of fs q)"
  by (auto simp: map_add_def split: option.splits)

lemma ascii_digit: "d < 10 \<Longrightarrow> digit_value (48 + d) = Some d"
  by (simp add: digit_value_def digit_blocks_def)

lemma ascii_isdigit: "d < 10 \<Longrightarrow> py_isdigit (48 + d)"
  by (simp add: py_isdigit_def ascii_digit)

lemma digits_of_digits: "list_all py_isdigit (digits_of n)"
proof (induction n rule: digits_of.induct)
  case (1 n)
  show ?case
  proof (cases "n < 10")
    case True
    then show ?thesis by (subst digits_of.simps) (simp add: ascii_isdigit)
  next
    case False
    then show ?thesis using 1 by (subst digits_of.simps) (simp add: ascii_isdigit)
  qed
qed



















section \<open>Versions and saves\<close>






section \<open>Loading an existing project\<close>















end
